theory Spec2Isabelle
  imports Main
begin

section \<open>JavaScript strings\<close>

text \<open>
  A JavaScript string is a sequence of UTF-16 code units and \<^verbatim>\<open>length\<close> counts them.
  The model covers the strings whose code units are all below 256 (Latin-1): one
  \<^typ>\<open>char\<close> is one code unit, and \<^term>\<open>length\<close> is \<^verbatim>\<open>String.prototype.length\<close>.
  Every literal of the sources that the model needs lies in that range.
\<close>

text \<open>\<^verbatim>\<open>toLowerCase\<close> on one code unit below 256: A-Z and the accented capitals
  U+00C0..U+00DE (without the multiplication sign U+00D7) move up by 32.\<close>

definition isUpper :: "char \<Rightarrow> bool" where
  "isUpper c =
    (let n = (of_char c :: nat)
     in (65 \<le> n \<and> n \<le> 90) \<or> (192 \<le> n \<and> n \<le> 214) \<or> (216 \<le> n \<and> n \<le> 222))"

definition toLowerCase_char :: "char \<Rightarrow> char" where
  "toLowerCase_char c = (if isUpper c then char_of ((of_char c :: nat) + 32) else c)"

definition toLowerCase :: "string \<Rightarrow> string" where
  "toLowerCase s = map toLowerCase_char s"

text \<open>\<^verbatim>\<open>trim\<close> removes white space at both ends; below 256 the white space and line
  terminator code units are TAB, LF, VT, FF, CR, SPACE and NBSP.\<close>

definition isWhiteSpace :: "char \<Rightarrow> bool" where
  "isWhiteSpace c = ((of_char c :: nat) \<in> {9, 10, 11, 12, 13, 32, 160})"

definition trim :: "string \<Rightarrow> string" where
  "trim s = rev (dropWhile isWhiteSpace (rev (dropWhile isWhiteSpace s)))"

text \<open>\<^verbatim>\<open>s.startsWith(k)\<close> and \<^verbatim>\<open>s.includes(k)\<close>.\<close>

fun startsWith :: "string \<Rightarrow> string \<Rightarrow> bool" where
  "startsWith s [] = True"
| "startsWith [] (k # ks) = False"
| "startsWith (c # cs) (k # ks) = (c = k \<and> startsWith cs ks)"

fun includesStr :: "string \<Rightarrow> string \<Rightarrow> bool" where
  "includesStr [] k = (k = [])"
| "includesStr (c # cs) k = (startsWith (c # cs) k \<or> includesStr cs k)"

text \<open>Truthiness of a value that is a string, \<^verbatim>\<open>null\<close> or \<^verbatim>\<open>undefined\<close>:
  only a non-empty string is truthy.\<close>

fun truthy :: "string option \<Rightarrow> bool" where
  "truthy None = False"
| "truthy (Some s) = (s \<noteq> [])"


section \<open>The suggestion resolver (route \<^verbatim>\<open>/api/suggestions\<close>)\<close>

subsection \<open>Tier 3: \<^verbatim>\<open>getPatternBasedSuggestions\<close>\<close>

text \<open>The object literal \<^verbatim>\<open>patterns\<close>; \<^verbatim>\<open>Object.entries\<close> lists its keys in
  insertion order, so the table is an association list in the order of the source.\<close>

definition patterns :: "(string \<times> string list) list" where
  "patterns =
    [(''what'',
       [''What objects are in this image?'',
        ''What is the main subject of this image?'',
        ''What colors are most prominent?'',
        ''What is happening in this scene?'',
        ''What text can you read?'']),
     (''how'',
       [''How many people are in this image?'',
        ''How many objects can you count?'',
        ''How would you describe the lighting?'',
        ''How old does this appear to be?'']),
     (''where'',
       [''Where was this photo taken?'',
        ''Where is the main focus?'',
        ''Where do you see text?'']),
     (''describe'',
       [''Describe the scene in detail'',
        ''Describe the main subject'',
        ''Describe the background'',
        ''Describe the colors and lighting'']),
     (''identify'',
       [''Identify all objects in this image'',
        ''Identify the main subject'',
        ''Identify any text visible'',
        ''Identify the setting or location'']),
     (''count'',
       [''Count the number of people'',
        ''Count the objects visible'',
        ''Count how many items you see'']),
     (''read'',
       [''Read any text in this image'',
        ''Read the signs or labels'',
        ''Read what is written here''])]"

text \<open>The three default completions: the partial text followed by a fixed suffix.\<close>

definition defaultSuggestions :: "string \<Rightarrow> string list" where
  "defaultSuggestions partial =
    [partial @ '' do you see in this image?'',
     partial @ '' is the main focus here?'',
     partial @ '' can you identify?'']"

text \<open>The \<^verbatim>\<open>for\<close> loop returns inside its first iteration whose key occurs in the
  lower-cased input, whatever the filter leaves; only when no key occurs does control
  reach the default completions.\<close>

definition getPatternBasedSuggestions :: "string \<Rightarrow> string list" where
  "getPatternBasedSuggestions partial =
    (let lower = toLowerCase partial in
     case find (\<lambda>(key, suggestions). startsWith lower key \<or> includesStr lower key) patterns of
       Some (key, suggestions) \<Rightarrow>
         take 3 (filter (\<lambda>s. startsWith (toLowerCase s) lower \<or> includesStr (toLowerCase s) lower)
                   suggestions)
     | None \<Rightarrow> take 3 (filter (\<lambda>s. length s \<le> 100) (defaultSuggestions partial)))"

subsection \<open>Tier 1: \<^verbatim>\<open>callHuggingFaceModel\<close>\<close>

text \<open>What the awaited \<^verbatim>\<open>fetch\<close> and \<^verbatim>\<open>response.json()\<close> can give: an exception, a
  response that is not ok, or a JSON array; of each element the model keeps its
  \<^verbatim>\<open>generated_text\<close> (\<^term>\<open>None\<close> when the element has none). A body that is not an
  array has no element 0 and behaves as the empty array.\<close>

datatype hf_outcome = HfThrow | HfNotOk | HfJson "string option list"

definition callHuggingFaceModel :: "string \<Rightarrow> hf_outcome \<Rightarrow> string list" where
  "callHuggingFaceModel partial outcome =
    (case outcome of
       HfThrow \<Rightarrow> []
     | HfNotOk \<Rightarrow> []
     | HfJson data \<Rightarrow>
         (let suggestions =
            (case data of
               [] \<Rightarrow> []
             | d0 # _ \<Rightarrow> (if truthy d0 then [trim (the d0)] else []))
          in take 3 (filter (\<lambda>s. length s > length partial \<and> length s \<le> 100) suggestions)))"

subsection \<open>Tier 2: \<^verbatim>\<open>tryLocalModel\<close>\<close>

datatype local_outcome = LocalThrow | LocalNotOk | LocalJson "string list option"

definition tryLocalModel :: "string option \<Rightarrow> local_outcome \<Rightarrow> string list" where
  "tryLocalModel localApiUrl outcome =
    (if \<not> truthy localApiUrl then []
     else case outcome of
       LocalThrow \<Rightarrow> []
     | LocalNotOk \<Rightarrow> []
     | LocalJson None \<Rightarrow> []
     | LocalJson (Some suggestions) \<Rightarrow> suggestions)"

subsection \<open>\<^verbatim>\<open>generateSuggestions\<close> and the route handler\<close>

text \<open>The process environment and the answers of the two remote services are the
  parameters of the resolver.\<close>

record suggest_env =
  HUGGING_FACE_API_KEY :: "string option"
  hf_response :: hf_outcome
  LOCAL_MODEL_API_URL :: "string option"
  local_response :: local_outcome

definition generateSuggestions :: "suggest_env \<Rightarrow> string \<Rightarrow> string list" where
  "generateSuggestions env partial =
    (let hfSuggestions =
       (if truthy (HUGGING_FACE_API_KEY env)
        then callHuggingFaceModel partial (hf_response env) else [])
     in if length hfSuggestions > 0 then hfSuggestions
        else
          (let localSuggestions = tryLocalModel (LOCAL_MODEL_API_URL env) (local_response env)
           in if length localSuggestions > 0 then localSuggestions
              else getPatternBasedSuggestions partial))"

text \<open>The body of the answer of \<^verbatim>\<open>POST /api/suggestions\<close>.\<close>

datatype suggestions_reply = SuggestionsError string | SuggestionsOk "string list"

definition POST_suggestions :: "suggest_env \<Rightarrow> string option \<Rightarrow> suggestions_reply" where
  "POST_suggestions env partial =
    (if \<not> truthy partial then SuggestionsError ''Partial text is required''
     else if length (the partial) < 3 then SuggestionsOk []
     else SuggestionsOk (generateSuggestions env (the partial)))"

text \<open>An environment with neither remote tier configured.\<close>

definition no_tiers :: suggest_env where
  "no_tiers =
    \<lparr>HUGGING_FACE_API_KEY = None, hf_response = HfThrow,
     LOCAL_MODEL_API_URL = None, local_response = LocalThrow\<rparr>"


section \<open>The suggestion controller (hook \<^verbatim>\<open>useAutoComplete\<close>)\<close>

record AutoCompleteState =
  suggestions :: "string list"
  isLoading :: bool
  selectedIndex :: int
  showSuggestions :: bool

text \<open>
  The hook instance: its React state and its two refs, with the requests it has sent.
  \<^item> \<open>debounceRef\<close> is the pending timeout, held as the text its callback will pass to
    \<^verbatim>\<open>fetchSuggestions\<close>; \<^term>\<open>None\<close> when no timeout is pending.
  \<^item> A request to \<^verbatim>\<open>/api/suggestions\<close> is named by its position in \<open>requests\<close>, which
    keeps the \<^verbatim>\<open>partial\<close> of each request body. Each request has an AbortController
    of its own; \<open>abortControllerRef\<close> names the request whose controller the ref holds
    and \<open>aborted\<close> lists the requests whose signal has been aborted.
\<close>

record autocomplete =
  state :: AutoCompleteState
  debounceRef :: "string option"
  abortControllerRef :: "nat option"
  aborted :: "nat list"
  requests :: "string list"

definition useAutoComplete :: autocomplete where
  "useAutoComplete =
    \<lparr>state = \<lparr>suggestions = [], isLoading = False, selectedIndex = -1, showSuggestions = False\<rparr>,
     debounceRef = None, abortControllerRef = None, aborted = [], requests = []\<rparr>"

subsection \<open>\<^verbatim>\<open>fetchSuggestions\<close>\<close>

text \<open>The state update shared by the short-text branch, the \<^verbatim>\<open>else\<close> branch and the
  \<^verbatim>\<open>catch\<close> block: \<^verbatim>\<open>{...prev, suggestions: [], showSuggestions: false, isLoading: false}\<close>.\<close>

definition clearedState :: "AutoCompleteState \<Rightarrow> AutoCompleteState" where
  "clearedState prev = prev\<lparr>suggestions := [], showSuggestions := False, isLoading := False\<rparr>"

text \<open>\<^verbatim>\<open>if (abortControllerRef.current) abortControllerRef.current.abort()\<close>.\<close>

definition abortCurrent :: "autocomplete \<Rightarrow> autocomplete" where
  "abortCurrent h =
    (case abortControllerRef h of
       None \<Rightarrow> h
     | Some c \<Rightarrow> h\<lparr>aborted := c # aborted h\<rparr>)"

text \<open>The synchronous part of \<^verbatim>\<open>fetchSuggestions(text)\<close>, up to its first
  \<^verbatim>\<open>await\<close>: the request has been sent when it returns.\<close>

definition fetchSuggestions :: "string \<Rightarrow> autocomplete \<Rightarrow> autocomplete" where
  "fetchSuggestions text h =
    (let h1 = abortCurrent h in
     if text = [] \<or> length text < 3
     then h1\<lparr>state := clearedState (state h1)\<rparr>
     else h1\<lparr>abortControllerRef := Some (length (requests h1)),
             state := (state h1)\<lparr>isLoading := True\<rparr>,
             requests := requests h1 @ [trim text]\<rparr>)"

text \<open>What the awaited \<^verbatim>\<open>fetch\<close> and \<^verbatim>\<open>response.json()\<close> of a request give: an
  exception, a response that is not ok, or a body with its \<^verbatim>\<open>success\<close> flag and its
  \<^verbatim>\<open>suggestions\<close> (\<^term>\<open>None\<close> when that is not an array).\<close>

datatype fetch_outcome = FetchThrow | FetchNotOk | FetchJson bool "string list option"

text \<open>The rest of \<^verbatim>\<open>fetchSuggestions\<close>, run when request \<open>rid\<close> settles. A request
  whose signal was aborted settles with an AbortError whatever the server answered, and
  the \<^verbatim>\<open>catch\<close> block runs its state update for an AbortError as for any other error
  (only the logging is skipped).\<close>

definition fetchSuggestions_settled :: "nat \<Rightarrow> fetch_outcome \<Rightarrow> autocomplete \<Rightarrow> autocomplete" where
  "fetchSuggestions_settled rid outcome h =
    (if rid \<in> set (aborted h) then h\<lparr>state := clearedState (state h)\<rparr>
     else case outcome of
       FetchThrow \<Rightarrow> h\<lparr>state := clearedState (state h)\<rparr>
     | FetchNotOk \<Rightarrow> h\<lparr>state := clearedState (state h)\<rparr>
     | FetchJson success None \<Rightarrow> h\<lparr>state := clearedState (state h)\<rparr>
     | FetchJson success (Some received) \<Rightarrow>
         (if success
          then h\<lparr>state := (state h)\<lparr>suggestions := received,
                                     showSuggestions := (length received > 0),
                                     selectedIndex := -1,
                                     isLoading := False\<rparr>\<rparr>
          else h\<lparr>state := clearedState (state h)\<rparr>))"

subsection \<open>\<^verbatim>\<open>getSuggestions\<close> and the debounce timer\<close>

text \<open>\<^verbatim>\<open>getSuggestions(text)\<close> clears the pending timeout and sets a new one of 300 ms;
  it does nothing else, whatever the length of the text.\<close>

definition getSuggestions :: "string \<Rightarrow> autocomplete \<Rightarrow> autocomplete" where
  "getSuggestions text h = h\<lparr>debounceRef := Some text\<rparr>"

text \<open>The pending timeout expires, 300 ms after the call of \<^verbatim>\<open>getSuggestions\<close> that set
  it: its callback calls \<^verbatim>\<open>fetchSuggestions(text)\<close>.\<close>

definition timeout :: "autocomplete \<Rightarrow> autocomplete" where
  "timeout h =
    (case debounceRef h of
       None \<Rightarrow> h
     | Some text \<Rightarrow> fetchSuggestions text (h\<lparr>debounceRef := None\<rparr>))"

subsection \<open>Selection\<close>

datatype direction = Up | Down

definition navigateSuggestions :: "direction \<Rightarrow> AutoCompleteState \<Rightarrow> AutoCompleteState" where
  "navigateSuggestions dir prev =
    (if \<not> showSuggestions prev \<or> length (suggestions prev) = 0 then prev
     else
       (let newIndex = selectedIndex prev;
            n = int (length (suggestions prev))
        in prev\<lparr>selectedIndex :=
             (case dir of
                Down \<Rightarrow> (if newIndex < n - 1 then newIndex + 1 else -1)
              | Up \<Rightarrow> (if newIndex > -1 then newIndex - 1 else n - 1))\<rparr>))"

definition selectSuggestion ::
  "int option \<Rightarrow> AutoCompleteState \<Rightarrow> string option \<times> AutoCompleteState" where
  "selectSuggestion index st =
    (let i = (case index of Some j \<Rightarrow> j | None \<Rightarrow> selectedIndex st)
     in if i \<ge> 0 \<and> i < int (length (suggestions st))
        then (Some (suggestions st ! nat i), st\<lparr>showSuggestions := False, selectedIndex := -1\<rparr>)
        else (None, st))"

definition hideSuggestions :: "AutoCompleteState \<Rightarrow> AutoCompleteState" where
  "hideSuggestions prev = prev\<lparr>showSuggestions := False, selectedIndex := -1\<rparr>"

definition clearSuggestions :: "AutoCompleteState \<Rightarrow> AutoCompleteState" where
  "clearSuggestions prev =
    \<lparr>suggestions = [], isLoading = False, selectedIndex = -1, showSuggestions = False\<rparr>"

subsection \<open>Event sequences\<close>

text \<open>
  JavaScript runs one callback at a time, so the life of the hook is a sequence of
  events: a call of one of its functions, the expiry of the pending timeout, or the
  settling of a request. Real time enters only through \<open>Timeout\<close>: two calls of
  \<^verbatim>\<open>getSuggestions\<close> less than 300 ms apart have no \<open>Timeout\<close> between them.
\<close>

datatype event =
    TextChanged string
  | Timeout
  | Settled nat fetch_outcome
  | Navigate direction
  | Select "int option"
  | Hide
  | Clear

fun step :: "event \<Rightarrow> autocomplete \<Rightarrow> autocomplete" where
  "step (TextChanged text) h = getSuggestions text h"
| "step Timeout h = timeout h"
| "step (Settled rid outcome) h = fetchSuggestions_settled rid outcome h"
| "step (Navigate dir) h = h\<lparr>state := navigateSuggestions dir (state h)\<rparr>"
| "step (Select index) h = h\<lparr>state := snd (selectSuggestion index (state h))\<rparr>"
| "step Hide h = h\<lparr>state := hideSuggestions (state h)\<rparr>"
| "step Clear h = h\<lparr>state := clearSuggestions (state h)\<rparr>"

fun run :: "event list \<Rightarrow> autocomplete \<Rightarrow> autocomplete" where
  "run [] h = h"
| "run (e # es) h = run es (step e h)"

text \<open>The text of the last \<^verbatim>\<open>getSuggestions\<close> call of a sequence, if it has one.\<close>

fun lastText :: "event list \<Rightarrow> string option" where
  "lastText [] = None"
| "lastText (e # es) =
    (case lastText es of
       Some t \<Rightarrow> Some t
     | None \<Rightarrow> (case e of TextChanged t \<Rightarrow> Some t | _ \<Rightarrow> None))"

fun isTimeout :: "event \<Rightarrow> bool" where
  "isTimeout Timeout = True"
| "isTimeout _ = False"

text \<open>A burst: a sequence of events during which the pending timeout never expires,
  as when every call of \<^verbatim>\<open>getSuggestions\<close> comes less than 300 ms after the one
  before.\<close>

definition burst :: "event list \<Rightarrow> bool" where
  "burst evs = list_all (\<lambda>e. \<not> isTimeout e) evs"


section \<open>The image query pipeline (hook \<^verbatim>\<open>useGeminiChat\<close>, route \<^verbatim>\<open>/api/gemini\<close>)\<close>

text \<open>\<^verbatim>\<open>ChatState\<close> is \<^verbatim>\<open>{result, isLoading, error}\<close>; its \<^verbatim>\<open>isLoading\<close> is the field
  \<open>isLoadingChat\<close> here, the name \<open>isLoading\<close> being the suggestion state's.\<close>

record ChatState =
  result :: "string option"
  isLoadingChat :: bool
  error :: "string option"

text \<open>A \<^verbatim>\<open>File\<close> object, of which the hook only tests the presence. The field
  \<^verbatim>\<open>file\<close> of \<^verbatim>\<open>ImageData\<close> is \<open>imageFile\<close> here.\<close>

datatype File = File string

record ImageData =
  imageFile :: "File option"
  url :: "string option"
  preview :: string

record chat =
  chatState :: ChatState
  currentImage :: "string option"
  imageData :: "ImageData option"

definition idle :: ChatState where
  "idle = \<lparr>result = None, isLoadingChat = False, error = None\<rparr>"

definition useGeminiChat :: chat where
  "useGeminiChat = \<lparr>chatState = idle, currentImage = None, imageData = None\<rparr>"

definition handleImageSelect :: "ImageData \<Rightarrow> chat \<Rightarrow> chat" where
  "handleImageSelect d c =
    c\<lparr>currentImage := Some (preview d), imageData := Some d, chatState := idle\<rparr>"

definition handleImageClear :: "chat \<Rightarrow> chat" where
  "handleImageClear c = c\<lparr>currentImage := None, imageData := None, chatState := idle\<rparr>"

definition retry :: "chat \<Rightarrow> chat" where
  "retry c = c\<lparr>chatState := (chatState c)\<lparr>error := None\<rparr>\<rparr>"

subsection \<open>\<^verbatim>\<open>askQuestion\<close>\<close>

text \<open>
  \<^verbatim>\<open>askQuestion\<close> is an async function: it runs to its first \<^verbatim>\<open>await\<close>, and each later
  part runs when the awaited request settles. Each part returns the new hook state, the
  network requests it sent, and what it is waiting for (\<^term>\<open>None\<close> when the function
  has returned).
\<close>

datatype net_call =
    FetchImage string
  | PostGemini string string

text \<open>What a suspended \<^verbatim>\<open>askQuestion\<close> waits for: the image fetch (it keeps the
  question for later), or the answer to the request it posted with the given
  \<^verbatim>\<open>image\<close> and \<^verbatim>\<open>question\<close>.\<close>

datatype pending =
    AwaitImage string
  | AwaitGemini string string

text \<open>The first part. The image URL is fetched, and the request to \<^verbatim>\<open>/api/gemini\<close> is
  sent, without any look at the question; the only check is for the image.\<close>

definition askQuestion :: "string \<Rightarrow> chat \<Rightarrow> chat \<times> net_call list \<times> pending option" where
  "askQuestion question c =
    (if imageData c = None \<or> \<not> truthy (currentImage c)
     then (c\<lparr>chatState := (chatState c)\<lparr>error := Some ''Please select an image first''\<rparr>\<rparr>,
           [], None)
     else
       (let c1 = c\<lparr>chatState := \<lparr>result = None, isLoadingChat = True, error = None\<rparr>\<rparr>;
            d = the (imageData c);
            imageForAPI = the (currentImage c)
        in if imageFile d \<noteq> None
           then (c1, [PostGemini imageForAPI (trim question)],
                 Some (AwaitGemini imageForAPI (trim question)))
           else if truthy (url d)
           then (c1, [FetchImage (the (url d))], Some (AwaitImage question))
           else (c1, [PostGemini imageForAPI (trim question)],
                 Some (AwaitGemini imageForAPI (trim question)))))"

text \<open>What fetching the image URL and reading it as a data URL give: an exception
  (\<^verbatim>\<open>fetch\<close>, \<^verbatim>\<open>blob()\<close> or the FileReader rejects) or the data URL. The hook does not
  look at the status of the response, so a response that is not ok is read like any
  other body.\<close>

datatype image_outcome = ImageThrow | ImageLoaded string

text \<open>The part after the image fetch. The inner \<^verbatim>\<open>catch\<close> throws
  \<^verbatim>\<open>new Error('Failed to fetch image from URL')\<close>, which the outer \<^verbatim>\<open>catch\<close> turns into
  the error state.\<close>

definition askQuestion_imageSettled ::
  "string \<Rightarrow> image_outcome \<Rightarrow> chat \<Rightarrow> chat \<times> net_call list \<times> pending option" where
  "askQuestion_imageSettled question outcome c =
    (case outcome of
       ImageThrow \<Rightarrow>
         (c\<lparr>chatState := \<lparr>result = None, isLoadingChat = False,
                          error = Some ''Failed to fetch image from URL''\<rparr>\<rparr>,
          [], None)
     | ImageLoaded base64 \<Rightarrow>
         (c, [PostGemini base64 (trim question)], Some (AwaitGemini base64 (trim question))))"

text \<open>\<^verbatim>\<open>GeminiResponse\<close> is \<^verbatim>\<open>{success, data?, error?}\<close>; its \<^verbatim>\<open>error\<close> is the field
  \<open>errorText\<close> here.\<close>

record GeminiResponse =
  success :: bool
  data :: "string option"
  errorText :: "string option"

datatype thrown = ErrorObject string | OtherValue

datatype gemini_outcome = GeminiThrow thrown | GeminiJson GeminiResponse

text \<open>The part after the request to \<^verbatim>\<open>/api/gemini\<close>. Every branch writes the whole
  \<^verbatim>\<open>ChatState\<close>; none reads the image, or anything else of the hook.\<close>

definition askQuestion_replied :: "gemini_outcome \<Rightarrow> chat \<Rightarrow> chat" where
  "askQuestion_replied outcome c =
    (case outcome of
       GeminiThrow t \<Rightarrow>
         c\<lparr>chatState :=
             \<lparr>result = None, isLoadingChat = False,
              error = Some (case t of ErrorObject message \<Rightarrow> message
                                    | OtherValue \<Rightarrow> ''Network error occurred'')\<rparr>\<rparr>
     | GeminiJson r \<Rightarrow>
         (if success r
          then c\<lparr>chatState := \<lparr>result = data r, isLoadingChat = False, error = None\<rparr>\<rparr>
          else c\<lparr>chatState :=
                   \<lparr>result = None, isLoadingChat = False,
                    error = Some (if truthy (errorText r) then the (errorText r)
                                  else ''Failed to analyze image'')\<rparr>\<rparr>))"

subsection \<open>The route handler \<^verbatim>\<open>POST /api/gemini\<close>\<close>

text \<open>The handler, for a body whose \<^verbatim>\<open>image\<close> and \<^verbatim>\<open>question\<close> are strings, as the hook
  sends them. \<^verbatim>\<open>callGeminiVision\<close> asks the remote vision service and is a parameter;
  the second component lists the calls made to it.\<close>

definition POST_gemini ::
  "(string \<Rightarrow> string \<Rightarrow> GeminiResponse) \<Rightarrow> string \<Rightarrow> string
    \<Rightarrow> GeminiResponse \<times> (string \<times> string) list" where
  "POST_gemini callGeminiVision image' question =
    (if image' = [] \<or> question = []
     then (\<lparr>success = False, data = None, errorText = Some ''Image and question are required''\<rparr>, [])
     else if length question > 500
     then (\<lparr>success = False, data = None,
            errorText = Some ''Question too long (max 500 characters)''\<rparr>, [])
     else (callGeminiVision image' question, [(image', question)]))"

subsection \<open>An uninterrupted run of \<^verbatim>\<open>askQuestion\<close>\<close>

text \<open>Whether a request of the hook reaches the route, or the \<^verbatim>\<open>fetch\<close> throws.\<close>

datatype transport = Delivered | Lost thrown

text \<open>The outcome of the hook's POST as the hook sees it, with the calls of
  \<^verbatim>\<open>callGeminiVision\<close> that the route made.\<close>

definition postToRoute ::
  "(string \<Rightarrow> string \<Rightarrow> GeminiResponse) \<Rightarrow> transport \<Rightarrow> string \<Rightarrow> string
    \<Rightarrow> gemini_outcome \<times> (string \<times> string) list" where
  "postToRoute callGeminiVision tr image' question =
    (case tr of
       Lost t \<Rightarrow> (GeminiThrow t, [])
     | Delivered \<Rightarrow>
         (let (r, calls) = POST_gemini callGeminiVision image' question
          in (GeminiJson r, calls)))"

text \<open>\<^verbatim>\<open>askQuestion\<close> run to its end with the route behind it and no other event in
  between: the final hook state, the requests the hook sent, and the calls of
  \<^verbatim>\<open>callGeminiVision\<close>.\<close>

definition askQuestion_run ::
  "(string \<Rightarrow> string \<Rightarrow> GeminiResponse) \<Rightarrow> image_outcome \<Rightarrow> transport \<Rightarrow> string \<Rightarrow> chat
    \<Rightarrow> chat \<times> net_call list \<times> (string \<times> string) list" where
  "askQuestion_run callGeminiVision img tr question c =
    (case askQuestion question c of
       (c1, sent1, None) \<Rightarrow> (c1, sent1, [])
     | (c1, sent1, Some (AwaitGemini i q)) \<Rightarrow>
         (let (reply, calls) = postToRoute callGeminiVision tr i q
          in (askQuestion_replied reply c1, sent1, calls))
     | (c1, sent1, Some (AwaitImage q)) \<Rightarrow>
         (case askQuestion_imageSettled q img c1 of
            (c2, sent2, None) \<Rightarrow> (c2, sent1 @ sent2, [])
          | (c2, sent2, Some (AwaitImage q')) \<Rightarrow> (c2, sent1 @ sent2, [])
          | (c2, sent2, Some (AwaitGemini i q')) \<Rightarrow>
              (let (reply, calls) = postToRoute callGeminiVision tr i q'
               in (askQuestion_replied reply c2, sent1 @ sent2, calls))))"

subsection \<open>Image events between a question and its answer\<close>

datatype image_event = ImageSelect ImageData | ImageClear

fun image_step :: "image_event \<Rightarrow> chat \<Rightarrow> chat" where
  "image_step (ImageSelect d) c = handleImageSelect d c"
| "image_step ImageClear c = handleImageClear c"

fun image_run :: "image_event list \<Rightarrow> chat \<Rightarrow> chat" where
  "image_run [] c = c"
| "image_run (e # es) c = image_run es (image_step e c)"

text \<open>The generation of the image: the number of times it has been set or cleared.
  The hook keeps no such counter; it is counted here on the events.\<close>

definition generation :: "image_event list \<Rightarrow> nat" where
  "generation evs = length evs"


section \<open>Inputs used in the examples\<close>

definition what3 :: "string list" where
  "what3 =
    [''What objects are in this image?'',
     ''What is the main subject of this image?'',
     ''What colors are most prominent?'']"

definition shown3 :: AutoCompleteState where
  "shown3 = \<lparr>suggestions = what3, isLoading = False, selectedIndex = 2, showSuggestions = True\<rparr>"

text \<open>An image picked as a file (the preview is its data URL) and one given by URL, as
  \<^verbatim>\<open>ImageUploader\<close> passes them to \<^verbatim>\<open>handleImageSelect\<close>.\<close>

definition fileImage :: ImageData where
  "fileImage =
    \<lparr>imageFile = Some (File ''cat.png''), url = None,
     preview = ''data:image/png;base64,iVBORw0KGgo=''\<rparr>"

definition urlImage :: ImageData where
  "urlImage =
    \<lparr>imageFile = None, url = Some ''https://example.com/dog.jpg'',
     preview = ''https://example.com/dog.jpg''\<rparr>"

definition catAnswer :: GeminiResponse where
  "catAnswer = \<lparr>success = True, data = Some ''A cat on a sofa.'', errorText = None\<rparr>"

text \<open>A vision service that answers every call with a failure.\<close>

definition refusing :: "string \<Rightarrow> string \<Rightarrow> GeminiResponse" where
  "refusing image' question = \<lparr>success = False, data = None, errorText = None\<rparr>"





section \<open>An invariant of the controller's refs\<close>

text \<open>The ref holds the controller of the request sent last; the aborted requests have
  all been sent; and every request but the last has been aborted.\<close>

definition wellFormed :: "autocomplete \<Rightarrow> bool" where
  "wellFormed h =
    ((case abortControllerRef h of
        None \<Rightarrow> requests h = []
      | Some c \<Rightarrow> Suc c = length (requests h)) \<and>
     list_all (\<lambda>r. r < length (requests h)) (aborted h) \<and>
     list_all (\<lambda>r. r \<in> set (aborted h)) [0 ..< length (requests h) - 1])"


section \<open>The resolver: properties\<close>

lemma length_getPatternBasedSuggestions: "length (getPatternBasedSuggestions partial) \<le> 3"
  by (simp add: getPatternBasedSuggestions_def Let_def split: option.split prod.split)

lemma generateSuggestions_falls_through:
  assumes "(if truthy (HUGGING_FACE_API_KEY env)
            then callHuggingFaceModel partial (hf_response env) else []) = []"
    and "tryLocalModel (LOCAL_MODEL_API_URL env) (local_response env) = []"
  shows "generateSuggestions env partial = getPatternBasedSuggestions partial"
  using assms by (simp add: generateSuggestions_def)

lemma generateSuggestions_unconfigured:
  "generateSuggestions (env\<lparr>HUGGING_FACE_API_KEY := None, LOCAL_MODEL_API_URL := None\<rparr>) partial =
     getPatternBasedSuggestions partial"
  by (simp add: generateSuggestions_def tryLocalModel_def)

lemma getPatternBasedSuggestions_default:
  assumes "find (\<lambda>(key, suggestions).
              startsWith (toLowerCase partial) key \<or> includesStr (toLowerCase partial) key)
            patterns = None"
    and "length partial \<le> 74"
  shows "getPatternBasedSuggestions partial = defaultSuggestions partial"
  using assms by (simp add: getPatternBasedSuggestions_def defaultSuggestions_def)

text \<open>
  \<^bold>\<open>C10.\<close> Whatever the remote inference service answers, \<^verbatim>\<open>callHuggingFaceModel\<close>
  returns at most one suggestion: its candidate list is built from the first generated
  text alone, before the filter and the cap of 3.
\<close>

theorem callHuggingFaceModel_at_most_one:
  "length (callHuggingFaceModel partial outcome) \<le> 1"
  by (simp add: callHuggingFaceModel_def Let_def split: hf_outcome.split list.split)




text \<open>
  \<^bold>\<open>C4\<close> (as the code has it). When the remote and the local tier yield nothing, the
  resolver returns what the pattern tier returns, and the route does so for every
  partial text of at least 3 characters. That list has at most 3 entries and can be
  empty. It is the 3 synthesized completions when no key of the table occurs in the
  lower-cased input and the input has at most 74 characters. For \<open>what obj\<close> it is the
  single question \<open>What objects are in this image?\<close>, which contains \<open>what obj\<close> once
  lower-cased.
\<close>

theorem pattern_tier_fallthrough:
  "((if truthy (HUGGING_FACE_API_KEY env)
     then callHuggingFaceModel partial (hf_response env) else []) = [] \<and>
    tryLocalModel (LOCAL_MODEL_API_URL env) (local_response env) = [] \<longrightarrow>
      generateSuggestions env partial = getPatternBasedSuggestions partial \<and>
      (3 \<le> length partial \<longrightarrow>
         POST_suggestions env (Some partial) = SuggestionsOk (getPatternBasedSuggestions partial))) \<and>
   length (getPatternBasedSuggestions partial) \<le> 3 \<and>
   (find (\<lambda>(key, suggestions).
            startsWith (toLowerCase partial) key \<or> includesStr (toLowerCase partial) key)
      patterns = None \<and> length partial \<le> 74 \<longrightarrow>
      getPatternBasedSuggestions partial = defaultSuggestions partial) \<and>
   getPatternBasedSuggestions ''what obj'' = [''What objects are in this image?''] \<and>
   includesStr (toLowerCase ''What objects are in this image?'') ''what obj''"
proof -
  have "getPatternBasedSuggestions ''what obj'' = [''What objects are in this image?'']"
    by code_simp
  moreover have "includesStr (toLowerCase ''What objects are in this image?'') ''what obj''"
    by code_simp
  moreover have "POST_suggestions env (Some partial) = SuggestionsOk (generateSuggestions env partial)"
    if "3 \<le> length partial"
    using that by (auto simp: POST_suggestions_def)
  ultimately show ?thesis
    using length_getPatternBasedSuggestions [of partial]
      generateSuggestions_falls_through [of env partial]
      getPatternBasedSuggestions_default [of partial]
    by simp
qed

theorem pattern_tier_fallthrough_witness:
  "(if truthy (HUGGING_FACE_API_KEY no_tiers)
    then callHuggingFaceModel ''sky'' (hf_response no_tiers) else []) = [] \<and>
   tryLocalModel (LOCAL_MODEL_API_URL no_tiers) (local_response no_tiers) = [] \<and>
   3 \<le> length ''sky'' \<and>
   find (\<lambda>(key, suggestions).
           startsWith (toLowerCase ''sky'') key \<or> includesStr (toLowerCase ''sky'') key)
     patterns = None \<and>
   length ''sky'' \<le> 74 \<and>
   POST_suggestions no_tiers (Some ''sky'') =
     SuggestionsOk [''sky do you see in this image?'', ''sky is the main focus here?'',
                    ''sky can you identify?'']"
proof -
  have a: "(if truthy (HUGGING_FACE_API_KEY no_tiers)
    then callHuggingFaceModel ''sky'' (hf_response no_tiers) else []) = []"
    by (simp add: no_tiers_def)
  have b: "tryLocalModel (LOCAL_MODEL_API_URL no_tiers) (local_response no_tiers) = []"
    by (simp add: no_tiers_def tryLocalModel_def)
  have c: "find (\<lambda>(key, suggestions).
           startsWith (toLowerCase ''sky'') key \<or> includesStr (toLowerCase ''sky'') key)
     patterns = None"
    by code_simp
  have d: "3 \<le> length ''sky''" "length ''sky'' \<le> 74"
    by simp_all
  from pattern_tier_fallthrough [of no_tiers "''sky''"] a b c d
  have "POST_suggestions no_tiers (Some ''sky'') = SuggestionsOk (defaultSuggestions ''sky'')"
    by simp
  then have "POST_suggestions no_tiers (Some ''sky'') =
     SuggestionsOk [''sky do you see in this image?'', ''sky is the main focus here?'',
                    ''sky can you identify?'']"
    by (simp add: defaultSuggestions_def)
  with a b c d show ?thesis by blast
qed

text \<open>The claim as the specification states it fails for \<open>what xyz\<close>: the key \<open>what\<close>
  occurs, no canned question contains the input, and the loop returns the empty list
  without reaching the default completions.\<close>

theorem pattern_tier_can_be_empty:
  "3 \<le> length ''what xyz'' \<and>
   getPatternBasedSuggestions ''what xyz'' = [] \<and>
   generateSuggestions no_tiers ''what xyz'' = [] \<and>
   POST_suggestions no_tiers (Some ''what xyz'') = SuggestionsOk []"
  by code_simp


section \<open>The suggestion controller: properties\<close>

subsection \<open>The invariant holds after every event sequence\<close>

lemma wellFormed_useAutoComplete: "wellFormed useAutoComplete"
  by (simp add: wellFormed_def useAutoComplete_def)

lemma wellFormed_fetchSuggestions:
  assumes "wellFormed h"
  shows "wellFormed (fetchSuggestions text h)"
proof (cases "abortControllerRef h")
  case None
  with assms show ?thesis
    by (auto simp: wellFormed_def fetchSuggestions_def abortCurrent_def Let_def list_all_iff)
next
  case (Some c)
  with assms have c: "Suc c = length (requests h)"
    by (simp add: wellFormed_def)
  have "r \<in> set (c # aborted h)" if "r < length (requests h)" for r
  proof (cases "r = c")
    case True
    then show ?thesis by simp
  next
    case False
    with that c have "r < length (requests h) - 1" by arith
    with assms show ?thesis by (simp add: wellFormed_def list_all_iff)
  qed
  with assms Some c show ?thesis
    by (auto simp: wellFormed_def fetchSuggestions_def abortCurrent_def Let_def list_all_iff
        less_Suc_eq)
qed

lemma wellFormed_step: "wellFormed h \<Longrightarrow> wellFormed (step e h)"
proof (cases e)
  case Timeout
  assume "wellFormed h"
  then have "wellFormed (h\<lparr>debounceRef := None\<rparr>)"
    by (simp add: wellFormed_def split: option.splits)
  then show ?thesis using Timeout \<open>wellFormed h\<close>
    by (simp add: timeout_def wellFormed_fetchSuggestions split: option.split)
qed (auto simp: wellFormed_def getSuggestions_def fetchSuggestions_settled_def
      split: fetch_outcome.split option.split)

lemma wellFormed_run: "wellFormed h \<Longrightarrow> wellFormed (run evs h)"
  by (induction evs arbitrary: h) (simp_all add: wellFormed_step)

subsection \<open>A burst only moves the pending timeout\<close>

lemma step_without_timeout:
  assumes "\<not> isTimeout e"
  shows "requests (step e h) = requests h" "aborted (step e h) = aborted h"
    "abortControllerRef (step e h) = abortControllerRef h"
    "debounceRef (step e h) = (case e of TextChanged t \<Rightarrow> Some t | _ \<Rightarrow> debounceRef h)"
  using assms
  by (cases e; simp add: getSuggestions_def fetchSuggestions_settled_def
      split: fetch_outcome.split option.split)+

lemma run_burst:
  assumes "burst evs"
  shows "requests (run evs h) = requests h \<and> aborted (run evs h) = aborted h \<and>
    abortControllerRef (run evs h) = abortControllerRef h \<and>
    debounceRef (run evs h) = (case lastText evs of None \<Rightarrow> debounceRef h | Some t \<Rightarrow> Some t)"
  using assms
proof (induction evs arbitrary: h)
  case Nil
  then show ?case by simp
next
  case (Cons e es)
  then have e: "\<not> isTimeout e" and es: "burst es" by (simp_all add: burst_def)
  show ?case
    using Cons.IH [OF es, of "step e h"] step_without_timeout [OF e, of h]
    by (cases e) (simp_all split: option.split)
qed

lemma settled_aborted:
  "rid \<in> set (aborted h) \<Longrightarrow>
    fetchSuggestions_settled rid outcome h = h\<lparr>state := clearedState (state h)\<rparr>"
  by (simp add: fetchSuggestions_settled_def)

lemma settled_live:
  "rid \<notin> set (aborted h) \<Longrightarrow>
    fetchSuggestions_settled rid (FetchJson True (Some received)) h =
      h\<lparr>state := (state h)\<lparr>suggestions := received, showSuggestions := (received \<noteq> []),
                             selectedIndex := -1, isLoading := False\<rparr>\<rparr>"
  by (simp add: fetchSuggestions_settled_def)

lemma timeout_after_burst:
  assumes wf: "wellFormed h" and b: "burst evs" and t: "lastText evs = Some t"
  defines "h' \<equiv> timeout (run evs h)"
  shows "requests h' = requests h @ (if length t < 3 then [] else [trim t])"
    and "rid < length (requests h) \<Longrightarrow> rid \<in> set (aborted h')"
    and "3 \<le> length t \<Longrightarrow> length (requests h) \<notin> set (aborted h')"
proof -
  let ?g = "run evs h"
  from run_burst [OF b, of h] t
  have g: "requests ?g = requests h" "aborted ?g = aborted h"
    "abortControllerRef ?g = abortControllerRef h" "debounceRef ?g = Some t"
    by simp_all
  have h': "h' = fetchSuggestions t (?g\<lparr>debounceRef := None\<rparr>)"
    by (simp add: h'_def timeout_def g)
  show "requests h' = requests h @ (if length t < 3 then [] else [trim t])"
    by (auto simp: h' fetchSuggestions_def abortCurrent_def Let_def g split: option.split)
  have ab: "aborted h' =
      (case abortControllerRef h of None \<Rightarrow> aborted h | Some c \<Rightarrow> c # aborted h)"
    by (auto simp: h' fetchSuggestions_def abortCurrent_def Let_def g split: option.split)
  show "rid \<in> set (aborted h')" if "rid < length (requests h)"
  proof (cases "abortControllerRef h")
    case None
    with wf that show ?thesis by (simp add: wellFormed_def)
  next
    case (Some c)
    with wf have c: "Suc c = length (requests h)" by (simp add: wellFormed_def)
    show ?thesis
    proof (cases "rid = c")
      case True
      then show ?thesis by (simp add: ab Some)
    next
      case False
      with that c have "rid < length (requests h) - 1" by arith
      with wf show ?thesis by (simp add: wellFormed_def list_all_iff ab Some)
    qed
  qed
  show "length (requests h) \<notin> set (aborted h')" if "3 \<le> length t"
  proof
    assume "length (requests h) \<in> set (aborted h')"
    then have "length (requests h) < length (requests h)"
      using wf by (auto simp: ab wellFormed_def list_all_iff split: option.splits)
    then show False by simp
  qed
qed

text \<open>
  What the debounce and the abort do achieve. Take any history \<open>pre\<close> of the hook and any
  burst \<open>evs\<close> after it whose last text is \<open>t\<close>. When the timeout then expires, at most
  one resolution starts, for the trimmed last text, and none if that text has fewer than
  3 characters; the signal of every resolution started before is aborted; and the
  result of the new resolution, if it arrives before another one starts, is the one the
  state shows.
\<close>

lemma burst_starts_one_resolution:
  assumes "burst evs" and "lastText evs = Some t"
  shows "(let h = run pre useAutoComplete; h' = timeout (run evs h)
          in requests h' = requests h @ (if length t < 3 then [] else [trim t]) \<and>
             list_all (\<lambda>rid. rid \<in> set (aborted h')) [0 ..< length (requests h)] \<and>
             (if 3 \<le> length t
              then length (requests h) \<notin> set (aborted h') \<and>
                   fetchSuggestions_settled (length (requests h))
                       (FetchJson True (Some received)) h' =
                     h'\<lparr>state := (state h')\<lparr>suggestions := received,
                                               showSuggestions := (received \<noteq> []),
                                               selectedIndex := -1, isLoading := False\<rparr>\<rparr>
              else True))"
proof -
  have wf: "wellFormed (run pre useAutoComplete)"
    by (rule wellFormed_run [OF wellFormed_useAutoComplete])
  note ta = timeout_after_burst [OF wf assms]
  show ?thesis
    unfolding Let_def
    using ta(1) ta(2) ta(3)
    by (auto simp: list_all_iff intro!: settled_live)
qed

text \<open>
  \<^bold>\<open>C2\<close> (the code at the failing input). The completion of a cancelled resolution
  does overwrite newer state. The \<^verbatim>\<open>catch\<close> block of \<^verbatim>\<open>fetchSuggestions\<close> is headed
  \<^verbatim>\<open>// Ignore abort errors\<close>, but only its logging is guarded: its state update runs
  for the AbortError too.
  \<^item> Request 0 (for \<open>what\<close>) is cancelled when the resolution for \<open>what o\<close> starts and
    sets \<open>isLoading\<close>; when request 0 then settles with the AbortError, \<open>isLoading\<close> is
    false again while request 1 is still outstanding.
  \<^item> With the list \<open>what3\<close> on display, request 1 is cancelled when the resolution for
    \<open>what ob\<close> starts; when request 1 settles with the AbortError, the displayed list is
    emptied and hidden and \<open>isLoading\<close> is false, while request 2 is still outstanding.
\<close>

theorem cancelled_completion_overwrites_newer_state:
  "requests (run [TextChanged ''what'', Timeout, TextChanged ''what o'', Timeout] useAutoComplete) =
     [''what'', ''what o''] \<and>
   aborted (run [TextChanged ''what'', Timeout, TextChanged ''what o'', Timeout] useAutoComplete) = [0] \<and>
   isLoading (state (run [TextChanged ''what'', Timeout, TextChanged ''what o'', Timeout]
     useAutoComplete)) \<and>
   \<not> isLoading (state (run [TextChanged ''what'', Timeout, TextChanged ''what o'', Timeout,
     Settled 0 FetchThrow] useAutoComplete)) \<and>
   requests (run [TextChanged ''what'', Timeout, Settled 0 (FetchJson True (Some what3)),
                  TextChanged ''what o'', Timeout, TextChanged ''what ob'', Timeout]
     useAutoComplete) = [''what'', ''what o'', ''what ob''] \<and>
   aborted (run [TextChanged ''what'', Timeout, Settled 0 (FetchJson True (Some what3)),
                 TextChanged ''what o'', Timeout, TextChanged ''what ob'', Timeout]
     useAutoComplete) = [1, 0] \<and>
   state (run [TextChanged ''what'', Timeout, Settled 0 (FetchJson True (Some what3)),
               TextChanged ''what o'', Timeout, TextChanged ''what ob'', Timeout]
     useAutoComplete) =
     \<lparr>suggestions = what3, isLoading = True, selectedIndex = -1, showSuggestions = True\<rparr> \<and>
   state (run [TextChanged ''what'', Timeout, Settled 0 (FetchJson True (Some what3)),
               TextChanged ''what o'', Timeout, TextChanged ''what ob'', Timeout,
               Settled 1 FetchThrow]
     useAutoComplete) =
     \<lparr>suggestions = [], isLoading = False, selectedIndex = -1, showSuggestions = False\<rparr>"
  by code_simp

text \<open>
  \<^bold>\<open>C5\<close> (the code at the failing input). The list \<open>what3\<close> is shown and its entry 1
  selected; the next resolution fails. The \<^verbatim>\<open>catch\<close> block empties and hides the list
  and leaves \<open>selectedIndex\<close> at 1; only the success branch resets it to -1.
\<close>

theorem failed_resolution_keeps_selectedIndex:
  "state (run [TextChanged ''what'', Timeout, Settled 0 (FetchJson True (Some what3)),
               Navigate Down, Navigate Down] useAutoComplete) =
     \<lparr>suggestions = what3, isLoading = False, selectedIndex = 1, showSuggestions = True\<rparr> \<and>
   state (run [TextChanged ''what'', Timeout, Settled 0 (FetchJson True (Some what3)),
               Navigate Down, Navigate Down,
               TextChanged ''what x'', Timeout, Settled 1 FetchThrow] useAutoComplete) =
     \<lparr>suggestions = [], isLoading = False, selectedIndex = 1, showSuggestions = False\<rparr>"
  by code_simp

text \<open>
  \<^bold>\<open>C6\<close> (as the code has it). For a text shorter than 3 characters \<^verbatim>\<open>getSuggestions\<close>
  only restarts the debounce timeout: it changes neither the suggestion state nor the
  requests, and cancels nothing. When that timeout expires, the list is emptied and
  hidden, \<open>isLoading\<close> is false, the resolution in flight (if any) is cancelled, and no
  request is sent.
\<close>

theorem short_text_cleared_at_timeout:
  "length text < 3 \<longrightarrow>
     state (getSuggestions text h) = state h \<and>
     requests (getSuggestions text h) = requests h \<and>
     aborted (getSuggestions text h) = aborted h \<and>
     (let h' = timeout (getSuggestions text h)
      in suggestions (state h') = [] \<and> \<not> showSuggestions (state h') \<and> \<not> isLoading (state h') \<and>
         requests h' = requests h \<and>
         (case abortControllerRef h of None \<Rightarrow> True | Some c \<Rightarrow> c \<in> set (aborted h')))"
  by (auto simp: getSuggestions_def timeout_def fetchSuggestions_def abortCurrent_def
      clearedState_def Let_def split: option.split)

theorem short_text_cleared_at_timeout_witness:
  "length ''wh'' < 3 \<and>
   state (timeout (getSuggestions ''wh'' (run [TextChanged ''what'', Timeout] useAutoComplete))) =
     \<lparr>suggestions = [], isLoading = False, selectedIndex = -1, showSuggestions = False\<rparr> \<and>
   requests (timeout (getSuggestions ''wh'' (run [TextChanged ''what'', Timeout] useAutoComplete))) =
     [''what''] \<and>
   0 \<in> set (aborted (timeout (getSuggestions ''wh''
     (run [TextChanged ''what'', Timeout] useAutoComplete))))"
proof -
  let ?h = "run [TextChanged ''what'', Timeout] useAutoComplete"
  have l: "length ''wh'' < 3" by simp
  have h: "requests ?h = [''what'']" "abortControllerRef ?h = Some 0"
    by code_simp+
  have s: "selectedIndex (state (timeout (getSuggestions ''wh'' ?h))) = -1"
    by code_simp
  note th = short_text_cleared_at_timeout [of "''wh''" ?h, unfolded Let_def h, rule_format, OF l]
  from th have "suggestions (state (timeout (getSuggestions ''wh'' ?h))) = []"
    "\<not> showSuggestions (state (timeout (getSuggestions ''wh'' ?h)))"
    "\<not> isLoading (state (timeout (getSuggestions ''wh'' ?h)))"
    "requests (timeout (getSuggestions ''wh'' ?h)) = [''what'']"
    "0 \<in> set (aborted (timeout (getSuggestions ''wh'' ?h)))"
    by simp_all
  with s l show ?thesis
    by (cases "state (timeout (getSuggestions ''wh'' ?h))") simp
qed

text \<open>The claim as the specification states it fails on \<open>immediately\<close>: after
  \<^verbatim>\<open>getSuggestions\<close> with the 2-character text \<open>wh\<close> the resolution for \<open>what\<close> is still
  loading and not cancelled, and when it settles before the timeout expires its
  suggestions are shown.\<close>

theorem short_text_not_cleared_immediately:
  "length ''wh'' < 3 \<and>
   isLoading (state (run [TextChanged ''what'', Timeout, TextChanged ''wh''] useAutoComplete)) \<and>
   aborted (run [TextChanged ''what'', Timeout, TextChanged ''wh''] useAutoComplete) = [] \<and>
   state (run [TextChanged ''what'', Timeout, TextChanged ''wh'',
               Settled 0 (FetchJson True (Some what3))] useAutoComplete) =
     \<lparr>suggestions = what3, isLoading = False, selectedIndex = -1, showSuggestions = True\<rparr>"
  by code_simp

text \<open>
  \<^bold>\<open>C7.\<close> On a visible, non-empty list of length \<open>n\<close> with the selection in
  \<open>{-1, ..., n-1}\<close>: down goes from \<open>n-1\<close> to -1 (not to 0) and otherwise one up, so
  from -1 to 0; up goes from -1 to \<open>n-1\<close> and otherwise one down, so from 0 to -1; both
  are rotations of \<open>{-1, ..., n-1}\<close>, inverse to each other. On a hidden or empty list
  navigation changes nothing.
\<close>

theorem navigateSuggestions_cyclic:
  "(showSuggestions st \<and> suggestions st \<noteq> [] \<and>
    -1 \<le> selectedIndex st \<and> selectedIndex st < int (length (suggestions st)) \<longrightarrow>
      navigateSuggestions Down st =
        st\<lparr>selectedIndex := (if selectedIndex st = int (length (suggestions st)) - 1 then -1
                              else selectedIndex st + 1)\<rparr> \<and>
      navigateSuggestions Up st =
        st\<lparr>selectedIndex := (if selectedIndex st = -1 then int (length (suggestions st)) - 1
                              else selectedIndex st - 1)\<rparr> \<and>
      selectedIndex (navigateSuggestions Down st) =
        (selectedIndex st + 2) mod (int (length (suggestions st)) + 1) - 1 \<and>
      selectedIndex (navigateSuggestions Up st) =
        (selectedIndex st + int (length (suggestions st)) + 1)
          mod (int (length (suggestions st)) + 1) - 1 \<and>
      navigateSuggestions Up (navigateSuggestions Down st) = st \<and>
      navigateSuggestions Down (navigateSuggestions Up st) = st) \<and>
   (\<not> showSuggestions st \<or> suggestions st = [] \<longrightarrow> navigateSuggestions dir st = st)"
proof (intro conjI impI)
  assume "\<not> showSuggestions st \<or> suggestions st = []"
  then show "navigateSuggestions dir st = st"
    by (auto simp: navigateSuggestions_def)
next
  assume a: "showSuggestions st \<and> suggestions st \<noteq> [] \<and>
    -1 \<le> selectedIndex st \<and> selectedIndex st < int (length (suggestions st))"
  then have n: "0 < length (suggestions st)" by simp
  show d: "navigateSuggestions Down st =
        st\<lparr>selectedIndex := (if selectedIndex st = int (length (suggestions st)) - 1 then -1
                              else selectedIndex st + 1)\<rparr>"
    using a by (auto simp: navigateSuggestions_def Let_def)
  show u: "navigateSuggestions Up st =
        st\<lparr>selectedIndex := (if selectedIndex st = -1 then int (length (suggestions st)) - 1
                              else selectedIndex st - 1)\<rparr>"
    using a by (auto simp: navigateSuggestions_def Let_def)
  show "selectedIndex (navigateSuggestions Down st) =
        (selectedIndex st + 2) mod (int (length (suggestions st)) + 1) - 1"
  proof (cases "selectedIndex st = int (length (suggestions st)) - 1")
    case True
    then show ?thesis by (simp add: d add.commute)
  next
    case False
    with a have "0 \<le> selectedIndex st + 2"
      "selectedIndex st + 2 < int (length (suggestions st)) + 1"
      by arith+
    then have "(selectedIndex st + 2) mod (int (length (suggestions st)) + 1) = selectedIndex st + 2"
      by (rule mod_pos_pos_trivial)
    with False show ?thesis by (simp add: d)
  qed
  show "selectedIndex (navigateSuggestions Up st) =
        (selectedIndex st + int (length (suggestions st)) + 1)
          mod (int (length (suggestions st)) + 1) - 1"
  proof (cases "selectedIndex st = -1")
    case True
    with n show ?thesis by (simp add: u)
  next
    case False
    with a have "0 \<le> selectedIndex st" "selectedIndex st < int (length (suggestions st)) + 1"
      by arith+
    then have "selectedIndex st mod (int (length (suggestions st)) + 1) = selectedIndex st"
      by (rule mod_pos_pos_trivial)
    moreover have "(selectedIndex st + int (length (suggestions st)) + 1)
          mod (int (length (suggestions st)) + 1)
        = selectedIndex st mod (int (length (suggestions st)) + 1)"
      by (simp add: add.assoc)
    ultimately show ?thesis using False by (simp add: u)
  qed
  show "navigateSuggestions Up (navigateSuggestions Down st) = st"
    using a by (auto simp: navigateSuggestions_def Let_def)
  show "navigateSuggestions Down (navigateSuggestions Up st) = st"
    using a by (auto simp: navigateSuggestions_def Let_def)
qed

theorem navigateSuggestions_cyclic_witness:
  "showSuggestions shown3 \<and> suggestions shown3 \<noteq> [] \<and>
   -1 \<le> selectedIndex shown3 \<and> selectedIndex shown3 < int (length (suggestions shown3)) \<and>
   navigateSuggestions Down shown3 = shown3\<lparr>selectedIndex := -1\<rparr> \<and>
   navigateSuggestions Up shown3 = shown3\<lparr>selectedIndex := 1\<rparr> \<and>
   navigateSuggestions Up (navigateSuggestions Down shown3) = shown3 \<and>
   suggestions (hideSuggestions shown3) \<noteq> [] \<and>
   navigateSuggestions Down (hideSuggestions shown3) = hideSuggestions shown3"
proof -
  have a: "showSuggestions shown3 \<and> suggestions shown3 \<noteq> [] \<and>
   -1 \<le> selectedIndex shown3 \<and> selectedIndex shown3 < int (length (suggestions shown3))"
    by (simp add: shown3_def what3_def)
  have b: "\<not> showSuggestions (hideSuggestions shown3) \<or> suggestions (hideSuggestions shown3) = []"
    by (simp add: hideSuggestions_def)
  have c: "suggestions (hideSuggestions shown3) \<noteq> []"
    by (simp add: hideSuggestions_def shown3_def what3_def)
  from navigateSuggestions_cyclic [of shown3] a
  have "navigateSuggestions Down shown3 =
        shown3\<lparr>selectedIndex := (if selectedIndex shown3 = int (length (suggestions shown3)) - 1
                                  then -1 else selectedIndex shown3 + 1)\<rparr>"
    "navigateSuggestions Up shown3 =
        shown3\<lparr>selectedIndex := (if selectedIndex shown3 = -1
                                  then int (length (suggestions shown3)) - 1
                                  else selectedIndex shown3 - 1)\<rparr>"
    "navigateSuggestions Up (navigateSuggestions Down shown3) = shown3"
    by blast+
  moreover have "selectedIndex shown3 = 2" "int (length (suggestions shown3)) = 3"
    by (simp_all add: shown3_def what3_def)
  moreover from navigateSuggestions_cyclic [of "hideSuggestions shown3" Down] b
  have "navigateSuggestions Down (hideSuggestions shown3) = hideSuggestions shown3"
    by blast
  ultimately show ?thesis using a c by simp
qed



section \<open>The image query pipeline: properties\<close>

lemma image_run_snoc: "image_run (evs @ [e]) c = image_step e (image_run evs c)"
  by (induction evs arbitrary: c) simp_all

text \<open>
  \<^bold>\<open>C1\<close> (as the code has it). The hook keeps no generation counter. The answer to a
  question is applied to the chat state whenever it arrives: the chat state after it is
  the same whatever images were set or cleared since the question was asked, and the
  answer leaves the current image as it is. Setting or clearing the image resets the
  chat state to idle at that moment only.
\<close>

theorem reply_applied_whatever_the_image:
  "chatState (askQuestion_replied outcome (image_run evs c)) =
     chatState (askQuestion_replied outcome c) \<and>
   currentImage (askQuestion_replied outcome c) = currentImage c \<and>
   imageData (askQuestion_replied outcome c) = imageData c \<and>
   chatState (image_run (evs @ [e]) c) = idle"
  by (cases e)
    (simp_all add: askQuestion_replied_def image_run_snoc handleImageSelect_def
      handleImageClear_def split: gemini_outcome.split)

text \<open>The claim as the specification states it fails: a question is asked about the
  file image, the image is replaced (the generation changes, the chat state is idle),
  and the answer that then arrives is written into the chat state.\<close>

theorem stale_reply_is_applied:
  "generation [ImageSelect urlImage] \<noteq> generation [] \<and>
   chatState (image_run [ImageSelect urlImage]
      (fst (askQuestion ''What is this?'' (handleImageSelect fileImage useGeminiChat)))) = idle \<and>
   chatState (askQuestion_replied (GeminiJson catAnswer)
     (image_run [ImageSelect urlImage]
        (fst (askQuestion ''What is this?'' (handleImageSelect fileImage useGeminiChat))))) =
     \<lparr>result = Some ''A cat on a sofa.'', isLoadingChat = False, error = None\<rparr>"
  by code_simp

subsection \<open>Questions that the route rejects\<close>

lemma POST_gemini_rejects:
  assumes "question = [] \<or> length question > 500"
  shows "\<not> success (fst (POST_gemini v image' question))"
    and "snd (POST_gemini v image' question) = []"
  using assms by (auto simp: POST_gemini_def)

lemma replied_error:
  assumes "case outcome of GeminiThrow t \<Rightarrow> True | GeminiJson r \<Rightarrow> \<not> success r"
  shows "error (chatState (askQuestion_replied outcome c)) \<noteq> None"
    and "result (chatState (askQuestion_replied outcome c)) = None"
    and "\<not> isLoadingChat (chatState (askQuestion_replied outcome c))"
  using assms by (auto simp: askQuestion_replied_def split: gemini_outcome.splits)

lemma postToRoute_rejects:
  assumes "trim question = [] \<or> length (trim question) > 500"
  shows "case fst (postToRoute v tr image' (trim question)) of
           GeminiThrow t \<Rightarrow> True | GeminiJson r \<Rightarrow> \<not> success r"
    and "snd (postToRoute v tr image' (trim question)) = []"
  using POST_gemini_rejects [OF assms, of v image']
  by (auto simp: postToRoute_def split: transport.splits prod.splits)

lemma rejected_question_finish:
  assumes "trim question = [] \<or> length (trim question) > 500" and "sent \<noteq> []"
  shows "case (let (reply, calls) = postToRoute v tr image' (trim question)
               in (askQuestion_replied reply c, sent, calls)) of
           (c', sent', calls') \<Rightarrow>
             error (chatState c') \<noteq> None \<and> result (chatState c') = None \<and>
             \<not> isLoadingChat (chatState c') \<and> calls' = [] \<and> sent' \<noteq> []"
proof -
  obtain reply calls where p: "postToRoute v tr image' (trim question) = (reply, calls)"
    by fastforce
  from postToRoute_rejects [OF assms(1), of v tr image'] p
  have r: "case reply of GeminiThrow t \<Rightarrow> True | GeminiJson r \<Rightarrow> \<not> success r" and "calls = []"
    by simp_all
  with replied_error [OF r, of c] assms(2) show ?thesis
    by (simp add: p)
qed

text \<open>
  \<^bold>\<open>C3\<close> (as the code has it). With no image set, \<^verbatim>\<open>askQuestion\<close> sets the error
  \<open>Please select an image first\<close> and returns without any request. With an image set
  and a question that is empty or longer than 500 characters after trimming, the hook
  does not check the question: it sends its requests (the image fetch for a URL image,
  then the POST to the route). The run still ends in an error state, not loading and
  with no result, and \<^verbatim>\<open>callGeminiVision\<close> is never called: the route rejects the
  question, or a request of the hook fails before.
\<close>

theorem askQuestion_validation:
  "(imageData c = None \<or> \<not> truthy (currentImage c) \<longrightarrow>
      askQuestion question c =
        (c\<lparr>chatState := (chatState c)\<lparr>error := Some ''Please select an image first''\<rparr>\<rparr>,
         [], None)) \<and>
   (imageData c \<noteq> None \<and> truthy (currentImage c) \<and>
    (trim question = [] \<or> length (trim question) > 500) \<longrightarrow>
      (case askQuestion_run callGeminiVision img tr question c of
         (c', sent, calls) \<Rightarrow>
           error (chatState c') \<noteq> None \<and> result (chatState c') = None \<and>
           \<not> isLoadingChat (chatState c') \<and> calls = [] \<and> sent \<noteq> []))"
proof (intro conjI impI)
  assume "imageData c = None \<or> \<not> truthy (currentImage c)"
  then show "askQuestion question c =
        (c\<lparr>chatState := (chatState c)\<lparr>error := Some ''Please select an image first''\<rparr>\<rparr>,
         [], None)"
    by (auto simp: askQuestion_def)
next
  assume a: "imageData c \<noteq> None \<and> truthy (currentImage c) \<and>
    (trim question = [] \<or> length (trim question) > 500)"
  then have q: "trim question = [] \<or> length (trim question) > 500" by simp
  from a obtain d where d: "imageData c = Some d" by auto
  let ?c1 = "c\<lparr>chatState := \<lparr>result = None, isLoadingChat = True, error = None\<rparr>\<rparr>"
  let ?i = "the (currentImage c)"
  show "case askQuestion_run callGeminiVision img tr question c of
         (c', sent, calls) \<Rightarrow>
           error (chatState c') \<noteq> None \<and> result (chatState c') = None \<and>
           \<not> isLoadingChat (chatState c') \<and> calls = [] \<and> sent \<noteq> []"
  proof (cases "imageFile d \<noteq> None \<or> \<not> truthy (url d)")
    case True
    with a d have "askQuestion question c =
        (?c1, [PostGemini ?i (trim question)], Some (AwaitGemini ?i (trim question)))"
      by (auto simp: askQuestion_def Let_def)
    then show ?thesis
      using rejected_question_finish [OF q, of "[PostGemini ?i (trim question)]"
          callGeminiVision tr ?i ?c1]
      by (simp add: askQuestion_run_def)
  next
    case False
    with a d have ask: "askQuestion question c =
        (?c1, [FetchImage (the (url d))], Some (AwaitImage question))"
      by (auto simp: askQuestion_def Let_def)
    show ?thesis
    proof (cases img)
      case ImageThrow
      then show ?thesis
        by (simp add: askQuestion_run_def ask askQuestion_imageSettled_def)
    next
      case (ImageLoaded base64)
      then show ?thesis
        using rejected_question_finish [OF q,
            of "[FetchImage (the (url d))] @ [PostGemini base64 (trim question)]"
            callGeminiVision tr base64 ?c1]
        by (simp add: askQuestion_run_def ask askQuestion_imageSettled_def)
    qed
  qed
qed

theorem askQuestion_validation_witness:
  "imageData useGeminiChat = None \<and>
   askQuestion ''What is this?'' useGeminiChat =
     (useGeminiChat\<lparr>chatState := \<lparr>result = None, isLoadingChat = False,
                                    error = Some ''Please select an image first''\<rparr>\<rparr>, [], None) \<and>
   imageData (handleImageSelect urlImage useGeminiChat) \<noteq> None \<and>
   truthy (currentImage (handleImageSelect urlImage useGeminiChat)) \<and>
   length (trim (replicate 501 (CHR ''a''))) > 500 \<and>
   error (chatState (fst (askQuestion_run refusing (ImageLoaded ''data:image/jpeg;base64,AAAA'')
       Delivered (replicate 501 (CHR ''a'')) (handleImageSelect urlImage useGeminiChat)))) =
     Some ''Question too long (max 500 characters)'' \<and>
   snd (snd (askQuestion_run refusing (ImageLoaded ''data:image/jpeg;base64,AAAA'')
       Delivered (replicate 501 (CHR ''a'')) (handleImageSelect urlImage useGeminiChat))) = []"
proof -
  let ?run = "askQuestion_run refusing (ImageLoaded ''data:image/jpeg;base64,AAAA'')
       Delivered (replicate 501 (CHR ''a'')) (handleImageSelect urlImage useGeminiChat)"
  have 1: "imageData (handleImageSelect urlImage useGeminiChat) \<noteq> None"
    by (simp add: handleImageSelect_def)
  have 2: "truthy (currentImage (handleImageSelect urlImage useGeminiChat))"
    by (simp add: handleImageSelect_def urlImage_def)
  have 3: "length (trim (replicate 501 (CHR ''a''))) > 500"
    by code_simp
  have 4: "error (chatState (fst ?run)) = Some ''Question too long (max 500 characters)''"
    by code_simp
  have 5: "imageData useGeminiChat = None"
    by (simp add: useGeminiChat_def)
  from askQuestion_validation [of useGeminiChat "''What is this?''"] 5
  have "askQuestion ''What is this?'' useGeminiChat =
     (useGeminiChat\<lparr>chatState :=
        (chatState useGeminiChat)\<lparr>error := Some ''Please select an image first''\<rparr>\<rparr>, [], None)"
    by blast
  then have 6: "askQuestion ''What is this?'' useGeminiChat =
     (useGeminiChat\<lparr>chatState := \<lparr>result = None, isLoadingChat = False,
                                    error = Some ''Please select an image first''\<rparr>\<rparr>, [], None)"
    by (simp add: useGeminiChat_def idle_def)
  from askQuestion_validation [of "handleImageSelect urlImage useGeminiChat"
      "replicate 501 (CHR ''a'')" refusing "ImageLoaded ''data:image/jpeg;base64,AAAA''" Delivered]
    1 2 3
  have "case ?run of
         (c', sent, calls) \<Rightarrow>
           error (chatState c') \<noteq> None \<and> result (chatState c') = None \<and>
           \<not> isLoadingChat (chatState c') \<and> calls = [] \<and> sent \<noteq> []"
    by simp
  then have 7: "snd (snd ?run) = []"
    by (simp split: prod.splits)
  from 1 2 3 4 5 6 7 show ?thesis by blast
qed

text \<open>The claim as the specification states it fails: with a URL image set and a
  question of 501 characters, \<^verbatim>\<open>askQuestion\<close> shows the loading state and fetches the
  image URL; with a file image it posts the question to the route.\<close>

theorem long_question_reaches_network:
  "length (trim (replicate 501 (CHR ''a''))) > 500 \<and>
   fst (snd (askQuestion (replicate 501 (CHR ''a'')) (handleImageSelect urlImage useGeminiChat))) =
     [FetchImage ''https://example.com/dog.jpg''] \<and>
   chatState (fst (askQuestion (replicate 501 (CHR ''a''))
       (handleImageSelect urlImage useGeminiChat))) =
     \<lparr>result = None, isLoadingChat = True, error = None\<rparr> \<and>
   fst (snd (askQuestion (replicate 501 (CHR ''a'')) (handleImageSelect fileImage useGeminiChat))) =
     [PostGemini ''data:image/png;base64,iVBORw0KGgo='' (replicate 501 (CHR ''a''))]"
  by code_simp

text \<open>
  \<^bold>\<open>C8\<close> (as the code has it). For an image given by URL, \<^verbatim>\<open>handleImageSelect\<close> stores
  the URL as it is, and \<^verbatim>\<open>askQuestion\<close> starts by fetching it. When that fetch throws,
  the run ends in the error state with the message \<open>Failed to fetch image from URL\<close>;
  the image fetch is the only request sent, and \<^verbatim>\<open>callGeminiVision\<close> is not called.
\<close>

theorem url_fetch_failure:
  "imageData c = Some d \<and> imageFile d = None \<and> truthy (url d) \<and> truthy (currentImage c) \<longrightarrow>
     askQuestion question c =
       (c\<lparr>chatState := \<lparr>result = None, isLoadingChat = True, error = None\<rparr>\<rparr>,
        [FetchImage (the (url d))], Some (AwaitImage question)) \<and>
     askQuestion_run callGeminiVision ImageThrow tr question c =
       (c\<lparr>chatState := \<lparr>result = None, isLoadingChat = False,
                        error = Some ''Failed to fetch image from URL''\<rparr>\<rparr>,
        [FetchImage (the (url d))], []) \<and>
     currentImage (handleImageSelect d c0) = Some (preview d)"
  by (auto simp: askQuestion_def askQuestion_run_def askQuestion_imageSettled_def Let_def
      handleImageSelect_def)

theorem url_fetch_failure_witness:
  "imageData (handleImageSelect urlImage useGeminiChat) = Some urlImage \<and>
   imageFile urlImage = None \<and> truthy (url urlImage) \<and>
   truthy (currentImage (handleImageSelect urlImage useGeminiChat)) \<and>
   askQuestion_run refusing ImageThrow Delivered ''What is this?''
       (handleImageSelect urlImage useGeminiChat) =
     ((handleImageSelect urlImage useGeminiChat)
        \<lparr>chatState := \<lparr>result = None, isLoadingChat = False,
                         error = Some ''Failed to fetch image from URL''\<rparr>\<rparr>,
      [FetchImage ''https://example.com/dog.jpg''], [])"
proof -
  have a: "imageData (handleImageSelect urlImage useGeminiChat) = Some urlImage \<and>
   imageFile urlImage = None \<and> truthy (url urlImage) \<and>
   truthy (currentImage (handleImageSelect urlImage useGeminiChat))"
    by (simp add: handleImageSelect_def urlImage_def)
  have u: "the (url urlImage) = ''https://example.com/dog.jpg''"
    by (simp add: urlImage_def)
  from url_fetch_failure [of "handleImageSelect urlImage useGeminiChat" urlImage
      "''What is this?''" refusing Delivered] a
  have "askQuestion_run refusing ImageThrow Delivered ''What is this?''
       (handleImageSelect urlImage useGeminiChat) =
     ((handleImageSelect urlImage useGeminiChat)
        \<lparr>chatState := \<lparr>result = None, isLoadingChat = False,
                         error = Some ''Failed to fetch image from URL''\<rparr>\<rparr>,
      [FetchImage (the (url urlImage))], [])"
    by blast
  with a u show ?thesis by simp
qed

text \<open>The claim as the specification states it fails on the message: the hook's
  message begins with a capital F.\<close>

theorem url_fetch_failure_message:
  "error (chatState (fst (askQuestion_run refusing ImageThrow Delivered ''What is this?''
      (handleImageSelect urlImage useGeminiChat)))) = Some ''Failed to fetch image from URL'' \<and>
   error (chatState (fst (askQuestion_run refusing ImageThrow Delivered ''What is this?''
      (handleImageSelect urlImage useGeminiChat)))) \<noteq> Some ''failed to fetch image from URL''"
  by code_simp


end
